theory Spec2Isabelle
  imports Main
begin

section \<open>The tree model (types/bash-parser/bash-ast.d.ts)\<close>

text \<open>
  The parser's nodes are a tagged union.  Each interface of the declaration
  file is a constructor; a slot holds what the declaration gives it: a list
  of nodes for an array, a \<open>word\<close> where the declaration says \<open>Word\<close>, the text of
  a \<open>Name\<close> where it says \<open>Name\<close>, a \<open>clist\<close> where it says \<open>CompoundList\<close>.
  Slots that the code tests for absence before use (\<open>node.name\<close>, \<open>node.prefix\<close>,
  \<open>node.suffix\<close>, \<open>node.clause\<close>, \<open>node.then\<close>, \<open>node.else\<close>) are options.
  Source locations (\<open>loc\<close>) are not read by any function of the repository
  and are left out.
\<close>

datatype node =
    Script "node list"
  | Pipeline "node list"
  | LogicalExpression string node node
  | Command "word option" "node list option" "node list option"
  | Function string "node list" clist
  | Name string
  | CompoundList clist
  | Subshell clist
  | For string "node list" clist
  | Case word "node list"
  | CaseItem "node list" clist
  | IfNode "clist option" "clist option" "clist option"
  | While clist clist
  | Until clist clist
  | Redirect string word int
  | Word word
  | AssignmentWord word
  | ArithmeticExpansion string bool
  | CommandExpansion string bool "node list"
  | ParameterExpansion string "string option" "string option" "string option"
and word = MkWord (word_text: string) (word_expansion: "node list")
and clist = MkCompoundList (list_commands: "node list") (list_redirections: "node list")

text \<open>The \<open>type\<close> tag of a node, the key under which a visitor is looked up.\<close>

fun node_type :: "node \<Rightarrow> string" where
  "node_type (Script _) = ''Script''"
| "node_type (Pipeline _) = ''Pipeline''"
| "node_type (LogicalExpression _ _ _) = ''LogicalExpression''"
| "node_type (Command _ _ _) = ''Command''"
| "node_type (Function _ _ _) = ''Function''"
| "node_type (Name _) = ''Name''"
| "node_type (CompoundList _) = ''CompoundList''"
| "node_type (Subshell _) = ''Subshell''"
| "node_type (For _ _ _) = ''For''"
| "node_type (Case _ _) = ''Case''"
| "node_type (CaseItem _ _) = ''CaseItem''"
| "node_type (IfNode _ _ _) = ''If''"
| "node_type (While _ _) = ''While''"
| "node_type (Until _ _) = ''Until''"
| "node_type (Redirect _ _ _) = ''Redirect''"
| "node_type (Word _) = ''Word''"
| "node_type (AssignmentWord _) = ''AssignmentWord''"
| "node_type (ArithmeticExpansion _ _) = ''ArithmeticExpansion''"
| "node_type (CommandExpansion _ _ _) = ''CommandExpansion''"
| "node_type (ParameterExpansion _ _ _ _) = ''ParameterExpansion''"

text \<open>
  What a visitor function may hand back, and what \<open>visit\<close> may be given:
  \<open>undefined\<close>, \<open>null\<close>, one node, or an array of nodes.
\<close>

datatype jsval = Undefined | Null | Node node | Arr "node list"

text \<open>
  Exceptions are values.  \<open>TypeError\<close> is JavaScript's own (a property read on
  \<open>undefined\<close>), \<open>ENOENT\<close> and \<open>EISDIR\<close> are the file system's, \<open>ParseError\<close> the
  parser's.  \<open>SlotMismatch\<close> belongs to the tree model alone: a rewrite put into
  a single-valued slot something the declared type of the slot excludes.
\<close>

datatype error =
    TypeError
  | ENOENT string
  | EISDIR string
  | ParseError
  | SlotMismatch

text \<open>An exception of a step ends the computation; otherwise the next step runs.\<close>

fun and_then :: "error + 'a \<Rightarrow> ('a \<Rightarrow> error + 'b) \<Rightarrow> error + 'b" where
  "and_then (Inl e) f = Inl e"
| "and_then (Inr x) f = f x"

section \<open>The traversal engine (src/traverse.ts)\<close>

text \<open>
  A visitor function receives the node and the spread context.  A visitor
  object is a table from type tags to functions, with an optional
  \<open>defaultMethod\<close>; \<open>typeof visitor[k] === "function"\<close> is \<open>handlers v k \<noteq> None\<close>.
  A visitor may also be an array of visitors (\<open>Seq\<close>).
\<close>

type_synonym 'c handler = "jsval \<Rightarrow> 'c \<Rightarrow> error + jsval"

record 'c vtable =
  handlers :: "string \<Rightarrow> 'c handler option"
  defaultMethod :: "'c handler option"

datatype 'c visitor = Table "'c vtable" | Seq "'c visitor list"

text \<open>
  \<open>node.type\<close>: the tag of a node; an array has no \<open>type\<close> property, so the
  lookup key is \<open>undefined\<close>, which JavaScript turns into the property name
  "undefined".
\<close>

fun type_key :: "jsval \<Rightarrow> string" where
  "type_key (Node n) = node_type n"
| "type_key _ = ''undefined''"

text \<open>\<open>out === undefined ? node : out\<close>, with a thrown exception passed on.\<close>

fun keep :: "jsval \<Rightarrow> error + jsval \<Rightarrow> error + jsval" where
  "keep node (Inl e) = Inl e"
| "keep node (Inr out) = (if out = Undefined then Inr node else Inr out)"

text \<open>
  \<open>visit\<close>.  The array case is \<open>visitor.reduce\<close> with \<open>node\<close> as the initial
  value (\<open>visit_reduce\<close>); an exception in one step ends the fold.
\<close>

fun visit :: "jsval \<Rightarrow> 'c \<Rightarrow> 'c visitor \<Rightarrow> error + jsval"
  and visit_reduce :: "jsval \<Rightarrow> 'c \<Rightarrow> 'c visitor list \<Rightarrow> error + jsval" where
  "visit node context (Seq vs) =
     (if node = Null \<or> node = Undefined then Inr Null
      else visit_reduce node context vs)"
| "visit node context (Table v) =
     (if node = Null \<or> node = Undefined then Inr Null
      else (case handlers v (type_key node) of
              Some h \<Rightarrow> keep node (h node context)
            | None \<Rightarrow>
               (case defaultMethod v of
                  Some d \<Rightarrow> keep node (d node context)
                | None \<Rightarrow> keep node (Inr node))))"
| "visit_reduce n context [] = Inr n"
| "visit_reduce n context (v # vs) =
     (case visit n context v of
        Inl e \<Rightarrow> Inl e
      | Inr newNode \<Rightarrow> visit_reduce newNode context vs)"

text \<open>
  \<open>traverseNode\<close>.  The context is \<open>[parent, ast, visitor]\<close>; the third entry is
  read only by the descend table, which is handed the visitor when it is
  built (see \<open>DescendVisitor\<close> below), so a context here is the pair of parent
  and root.  \<open>DescendVisitor\<close> comes from a module that is not part of the
  sources at hand and is a parameter.
\<close>

type_synonym tctx = "jsval \<times> jsval"

definition traverseNode ::
  "tctx visitor \<Rightarrow> jsval \<Rightarrow> jsval \<Rightarrow> tctx visitor \<Rightarrow> jsval \<Rightarrow> error + jsval" where
  "traverseNode DescendVisitor parent ast visitor node =
     visit node (parent, ast) (Seq [DescendVisitor, visitor])"

section \<open>The Generic Descend Step\<close>

text \<open>
  Modelled from the spec: part of the missing module \<open>./descend-visitor\<close> (see
  \<open>descend\<close> below).  What a rewritten child contributes to a sequence-valued
  slot: a node stays one element, an array is spliced in, an absent value is
  left out.
\<close>

fun splice :: "jsval \<Rightarrow> node list" where
  "splice (Node n) = [n]"
| "splice (Arr ns) = ns"
| "splice Null = []"
| "splice Undefined = []"

text \<open>
  Modelled from the spec: part of the missing module \<open>./descend-visitor\<close>.  What
  a rewritten child contributes to a single-valued slot: the spec says that
  the node is reassembled with the rewritten child; the value must inhabit
  the slot's declared type, else the tree model ends with \<open>SlotMismatch\<close>.  An
  optional slot takes an absent value as absence.
\<close>

fun as_node :: "jsval \<Rightarrow> error + node" where
  "as_node (Node n) = Inr n"
| "as_node _ = Inl SlotMismatch"

fun as_word :: "jsval \<Rightarrow> error + word" where
  "as_word (Node (Word w)) = Inr w"
| "as_word _ = Inl SlotMismatch"

fun as_name :: "jsval \<Rightarrow> error + string" where
  "as_name (Node (Name t)) = Inr t"
| "as_name _ = Inl SlotMismatch"

fun as_clist :: "jsval \<Rightarrow> error + clist" where
  "as_clist (Node (CompoundList l)) = Inr l"
| "as_clist _ = Inl SlotMismatch"

fun as_word_opt :: "jsval \<Rightarrow> error + word option" where
  "as_word_opt Null = Inr None"
| "as_word_opt Undefined = Inr None"
| "as_word_opt r = and_then (as_word r) (\<lambda>w. Inr (Some w))"

fun as_clist_opt :: "jsval \<Rightarrow> error + clist option" where
  "as_clist_opt Null = Inr None"
| "as_clist_opt Undefined = Inr None"
| "as_clist_opt r = and_then (as_clist r) (\<lambda>l. Inr (Some l))"

text \<open>
  Modelled from the spec: the module \<open>./descend-visitor\<close>, which \<open>traverse.ts\<close>
  requires and applies to \<open>traverseNode\<close>, is missing from the sources.  The
  spec (4.1) describes it: a table indexed by node type whose function for a
  composite node rewrites every child slot by running the full chain (descend
  step, then the user's visitor) on it, with the node as the parent, and
  reassembles a node of the same type; in a sequence-valued slot an array is
  spliced in and an absent result is left out; leaf types (\<open>Word\<close>, \<open>Name\<close>,
  \<open>AssignmentWord\<close>, the expansions) have no descend behaviour.

  \<open>descend\<close> is that rewriting of one node and \<open>descend_list\<close> the same for
  the content of a slot declared \<open>CompoundList\<close>.  The full chain on a child
  \<open>c\<close> with parent \<open>p\<close> is \<open>descend\<close> followed by the user's visitor,
  \<open>and_then (descend v ast c) (\<lambda>d. visit (Node d) (p, ast) v)\<close>; \<open>chain_seq\<close> runs
  it along a sequence-valued slot.  A slot declared \<open>Word\<close> or \<open>Name\<close> holds a
  leaf, so the chain on it is the user's visitor alone.  Children are visited
  in the order of the declaration, and the slots are fitted when the node is
  reassembled.
\<close>

function descend :: "tctx visitor \<Rightarrow> jsval \<Rightarrow> node \<Rightarrow> error + node"
  and descend_list :: "tctx visitor \<Rightarrow> jsval \<Rightarrow> clist \<Rightarrow> error + clist"
  and chain_seq :: "tctx visitor \<Rightarrow> jsval \<Rightarrow> jsval \<Rightarrow> node list \<Rightarrow> error + node list"
where
  "descend v ast (Script cs) =
     and_then (chain_seq v ast (Node (Script cs)) cs) (\<lambda>cs'. Inr (Script cs'))"
| "descend v ast (Pipeline cs) =
     and_then (chain_seq v ast (Node (Pipeline cs)) cs) (\<lambda>cs'. Inr (Pipeline cs'))"
| "descend v ast (LogicalExpression op l r) =
     and_then (and_then (descend v ast l)
                 (\<lambda>d. visit (Node d) (Node (LogicalExpression op l r), ast) v)) (\<lambda>l'.
     and_then (and_then (descend v ast r)
                 (\<lambda>d. visit (Node d) (Node (LogicalExpression op l r), ast) v)) (\<lambda>r'.
     and_then (as_node l') (\<lambda>l''.
     and_then (as_node r') (\<lambda>r''. Inr (LogicalExpression op l'' r'')))))"
| "descend v ast (Command name prefix suffix) =
     and_then (case name of None \<Rightarrow> Inr Null
               | Some w \<Rightarrow> visit (Node (Word w)) (Node (Command name prefix suffix), ast) v)
       (\<lambda>name'.
     and_then (case prefix of None \<Rightarrow> Inr None
               | Some ps \<Rightarrow> and_then (chain_seq v ast (Node (Command name prefix suffix)) ps)
                             (\<lambda>ps'. Inr (Some ps'))) (\<lambda>prefix'.
     and_then (case suffix of None \<Rightarrow> Inr None
               | Some ss \<Rightarrow> and_then (chain_seq v ast (Node (Command name prefix suffix)) ss)
                             (\<lambda>ss'. Inr (Some ss'))) (\<lambda>suffix'.
     and_then (as_word_opt name') (\<lambda>name''. Inr (Command name'' prefix' suffix')))))"
| "descend v ast (Function name rs body) =
     and_then (visit (Node (Name name)) (Node (Function name rs body), ast) v) (\<lambda>name'.
     and_then (chain_seq v ast (Node (Function name rs body)) rs) (\<lambda>rs'.
     and_then (and_then (descend_list v ast body)
        (\<lambda>l'. visit (Node (CompoundList l')) (Node (Function name rs body), ast) v)) (\<lambda>body'.
     and_then (as_name name') (\<lambda>name''.
     and_then (as_clist body') (\<lambda>body''. Inr (Function name'' rs' body''))))))"
| "descend v ast (Name t) = Inr (Name t)"
| "descend v ast (CompoundList l) =
     and_then (descend_list v ast l) (\<lambda>l'. Inr (CompoundList l'))"
| "descend v ast (Subshell l) =
     and_then (and_then (descend_list v ast l)
        (\<lambda>l'. visit (Node (CompoundList l')) (Node (Subshell l), ast) v)) (\<lambda>l'.
     and_then (as_clist l') (\<lambda>l''. Inr (Subshell l'')))"
| "descend v ast (For name ws body) =
     and_then (visit (Node (Name name)) (Node (For name ws body), ast) v) (\<lambda>name'.
     and_then (chain_seq v ast (Node (For name ws body)) ws) (\<lambda>ws'.
     and_then (and_then (descend_list v ast body)
        (\<lambda>l'. visit (Node (CompoundList l')) (Node (For name ws body), ast) v)) (\<lambda>body'.
     and_then (as_name name') (\<lambda>name''.
     and_then (as_clist body') (\<lambda>body''. Inr (For name'' ws' body''))))))"
| "descend v ast (Case clause cases) =
     and_then (visit (Node (Word clause)) (Node (Case clause cases), ast) v) (\<lambda>clause'.
     and_then (chain_seq v ast (Node (Case clause cases)) cases) (\<lambda>cases'.
     and_then (as_word clause') (\<lambda>clause''. Inr (Case clause'' cases'))))"
| "descend v ast (CaseItem pattern body) =
     and_then (chain_seq v ast (Node (CaseItem pattern body)) pattern) (\<lambda>pattern'.
     and_then (and_then (descend_list v ast body)
        (\<lambda>l'. visit (Node (CompoundList l')) (Node (CaseItem pattern body), ast) v)) (\<lambda>body'.
     and_then (as_clist body') (\<lambda>body''. Inr (CaseItem pattern' body''))))"
| "descend v ast (IfNode c t e) =
     and_then (case c of None \<Rightarrow> Inr Null
               | Some l \<Rightarrow> and_then (descend_list v ast l)
                   (\<lambda>l'. visit (Node (CompoundList l')) (Node (IfNode c t e), ast) v)) (\<lambda>c'.
     and_then (case t of None \<Rightarrow> Inr Null
               | Some l \<Rightarrow> and_then (descend_list v ast l)
                   (\<lambda>l'. visit (Node (CompoundList l')) (Node (IfNode c t e), ast) v)) (\<lambda>t'.
     and_then (case e of None \<Rightarrow> Inr Null
               | Some l \<Rightarrow> and_then (descend_list v ast l)
                   (\<lambda>l'. visit (Node (CompoundList l')) (Node (IfNode c t e), ast) v)) (\<lambda>e'.
     and_then (as_clist_opt c') (\<lambda>c''.
     and_then (as_clist_opt t') (\<lambda>t''.
     and_then (as_clist_opt e') (\<lambda>e''. Inr (IfNode c'' t'' e'')))))))"
| "descend v ast (While c d) =
     and_then (and_then (descend_list v ast c)
        (\<lambda>l'. visit (Node (CompoundList l')) (Node (While c d), ast) v)) (\<lambda>c'.
     and_then (and_then (descend_list v ast d)
        (\<lambda>l'. visit (Node (CompoundList l')) (Node (While c d), ast) v)) (\<lambda>d'.
     and_then (as_clist c') (\<lambda>c''.
     and_then (as_clist d') (\<lambda>d''. Inr (While c'' d'')))))"
| "descend v ast (Until c d) =
     and_then (and_then (descend_list v ast c)
        (\<lambda>l'. visit (Node (CompoundList l')) (Node (Until c d), ast) v)) (\<lambda>c'.
     and_then (and_then (descend_list v ast d)
        (\<lambda>l'. visit (Node (CompoundList l')) (Node (Until c d), ast) v)) (\<lambda>d'.
     and_then (as_clist c') (\<lambda>c''.
     and_then (as_clist d') (\<lambda>d''. Inr (Until c'' d'')))))"
| "descend v ast (Redirect op file numberIo) =
     and_then (visit (Node (Word file)) (Node (Redirect op file numberIo), ast) v) (\<lambda>file'.
     and_then (as_word file') (\<lambda>file''. Inr (Redirect op file'' numberIo)))"
| "descend v ast (Word w) = Inr (Word w)"
| "descend v ast (AssignmentWord w) = Inr (AssignmentWord w)"
| "descend v ast (ArithmeticExpansion x r) = Inr (ArithmeticExpansion x r)"
| "descend v ast (CommandExpansion x r a) = Inr (CommandExpansion x r a)"
| "descend v ast (ParameterExpansion p k w op) = Inr (ParameterExpansion p k w op)"
| "descend_list v ast (MkCompoundList cs rs) =
     and_then (chain_seq v ast (Node (CompoundList (MkCompoundList cs rs))) cs) (\<lambda>cs'.
     and_then (chain_seq v ast (Node (CompoundList (MkCompoundList cs rs))) rs) (\<lambda>rs'.
       Inr (MkCompoundList cs' rs')))"
| "chain_seq v ast parent [] = Inr []"
| "chain_seq v ast parent (c # cs) =
     and_then (and_then (descend v ast c) (\<lambda>d. visit (Node d) (parent, ast) v)) (\<lambda>r.
     and_then (chain_seq v ast parent cs) (\<lambda>rs. Inr (splice r @ rs)))"
  by pat_completeness auto
termination
  by (relation "measure (\<lambda>x. case x of Inl (v, a, n) \<Rightarrow> size n
        | Inr (Inl (v, a, l)) \<Rightarrow> size l
        | Inr (Inr (v, a, p, cs)) \<Rightarrow> size_list size cs)") simp_all

text \<open>
  Modelled from the spec: part of the missing module \<open>./descend-visitor\<close>.  The
  node types for which the table has a function: those with child slots.
\<close>

definition composite :: "string \<Rightarrow> bool" where
  "composite k \<longleftrightarrow> k \<in> set [''Script'', ''Pipeline'', ''LogicalExpression'', ''Command'',
     ''Function'', ''CompoundList'', ''Subshell'', ''For'', ''Case'', ''CaseItem'', ''If'',
     ''While'', ''Until'', ''Redirect'']"

text \<open>
  Modelled from the spec: the table that the missing module \<open>./descend-visitor\<close>
  exports.  The function under a tag is only ever called on a node of that
  tag, and there it is \<open>descend\<close>.  The module receives the visitor as the third
  entry of the context; here the table is built for the visitor.
\<close>

definition DescendVisitor :: "tctx visitor \<Rightarrow> tctx visitor" where
  "DescendVisitor visitor =
     Table \<lparr> handlers = (\<lambda>k. if composite k
                then Some (\<lambda>node context.
                       case node of
                         Node n \<Rightarrow> and_then (descend visitor (snd context) n) (\<lambda>d. Inr (Node d))
                       | other \<Rightarrow> Inr other)
                else None),
             defaultMethod = None \<rparr>"

text \<open>\<open>traverse\<close>: the chain on the root, with no parent.\<close>

definition traverse :: "jsval \<Rightarrow> tctx visitor \<Rightarrow> error + jsval" where
  "traverse ast visitor = traverseNode (DescendVisitor visitor) Null ast visitor ast"

text \<open>The empty visitor table \<open>{}\<close>.\<close>

definition empty_visitor :: "tctx visitor" where
  "empty_visitor = Table \<lparr> handlers = (\<lambda>k. None), defaultMethod = None \<rparr>"

section \<open>The code generator (codegen.ts)\<close>

text \<open>
  \<open>Array.prototype.join\<close> on the values of \<open>source\<close> reads: an element that is
  \<open>undefined\<close> (\<open>None\<close>: the node has no \<open>source\<close> accessor) contributes the empty
  string.
\<close>

fun js_join :: "string \<Rightarrow> string option list \<Rightarrow> string" where
  "js_join sep [] = ''''"
| "js_join sep [x] = (case x of None \<Rightarrow> '''' | Some s \<Rightarrow> s)"
| "js_join sep (x # y # ys) =
     (case x of None \<Rightarrow> '''' | Some s \<Rightarrow> s) @ sep @ js_join sep (y # ys)"

text \<open>String concatenation with a value that may be \<open>undefined\<close>.\<close>

fun js_string :: "string option \<Rightarrow> string" where
  "js_string None = ''undefined''"
| "js_string (Some s) = s"

text \<open>
  The bodies of the accessor functions, as functions of what they read from
  the children.  \<open>command_text\<close> is the \<open>Command\<close> rule: each of \<open>prefix\<close> and
  \<open>suffix\<close> is absent or the list of its elements' \<open>source\<close> values, \<open>name\<close> is
  absent or the \<open>source\<close> value of the name.
\<close>

definition command_text ::
  "string option list option \<Rightarrow> string option option \<Rightarrow> string option list option \<Rightarrow> string"
  where
  "command_text prefix name suffix =
     (let suffix' = (case suffix of Some ss \<Rightarrow> js_join '' '' ss | None \<Rightarrow> '''');
          prefix' = (case prefix of Some ps \<Rightarrow> js_join '' '' ps | None \<Rightarrow> '''');
          name' = (case name of Some s \<Rightarrow> js_string s | None \<Rightarrow> '''')
      in prefix' @ '' '' @ name' @ '' '' @ suffix')"

text \<open>
  The \<open>If\<close> rule: each branch is absent or the list of the \<open>source\<close> values of
  its commands.  The interpolation \<open>_then && ...\<close> is the empty string when
  \<open>_then\<close> is the empty string, and likewise for \<open>_else\<close>.
\<close>

definition if_text ::
  "string option list option \<Rightarrow> string option list option \<Rightarrow> string option list option
     \<Rightarrow> string" where
  "if_text clause then_branch else_branch =
     (let clause' = (case clause of Some cs \<Rightarrow> js_join '' '' cs | None \<Rightarrow> '''');
          then' = (case then_branch of Some cs \<Rightarrow> js_join ''\<newline>'' cs | None \<Rightarrow> '''');
          else' = (case else_branch of Some cs \<Rightarrow> js_join '' '' cs | None \<Rightarrow> '''')
      in ''if '' @ clause' @ ''\<newline>''
           @ (if then' = '''' then '''' else ''then\<newline>'' @ then' @ ''\<newline>'')
           @ (if else' = '''' then '''' else ''else\<newline>'' @ else' @ ''\<newline>'')
           @ ''\<newline>fi'')"

text \<open>The \<open>Function\<close> rule, from \<open>node.name.text\<close> and the string of \<open>node.body\<close>.\<close>

definition function_text :: "string \<Rightarrow> string \<Rightarrow> string" where
  "function_text name body = name @ ''() {\<newline>  '' @ body @ ''\<newline>}''"

text \<open>
  \<open>source n\<close> is what reading \<open>n.source\<close> gives once \<open>codegen\<close> has installed its
  accessors on the tree: the table of \<open>codegen\<close> has a rule for \<open>Script\<close>, \<open>Word\<close>,
  \<open>AssignmentWord\<close>, \<open>Name\<close>, \<open>CompoundList\<close>, \<open>Function\<close>, \<open>Command\<close> and \<open>If\<close>; a node of
  any other type has no accessor and the read gives \<open>undefined\<close> (\<open>None\<close>).
  \<open>list_source\<close> is the rule of a \<open>CompoundList\<close> on its content; it is also the
  string of a function's body, whose \<open>toString\<close> forwards to \<open>source\<close>.
\<close>

fun source :: "node \<Rightarrow> string option"
  and list_source :: "clist \<Rightarrow> string"
  and command_sources :: "clist \<Rightarrow> string option list" where
  "source (Script cs) = Some (js_join ''\<newline>'' (map source cs))"
| "source (Word w) = Some (word_text w)"
| "source (AssignmentWord w) = Some (word_text w)"
| "source (Name t) = Some t"
| "source (CompoundList l) = Some (list_source l)"
| "source (Function name rs body) = Some (function_text name (list_source body))"
| "source (Command name prefix suffix) =
     Some (command_text
       (case prefix of None \<Rightarrow> None | Some ps \<Rightarrow> Some (map source ps))
       (case name of None \<Rightarrow> None | Some w \<Rightarrow> Some (Some (word_text w)))
       (case suffix of None \<Rightarrow> None | Some ss \<Rightarrow> Some (map source ss)))"
| "source (IfNode c t e) =
     Some (if_text
       (case c of None \<Rightarrow> None | Some l \<Rightarrow> Some (command_sources l))
       (case t of None \<Rightarrow> None | Some l \<Rightarrow> Some (command_sources l))
       (case e of None \<Rightarrow> None | Some l \<Rightarrow> Some (command_sources l)))"
| "source (Pipeline cs) = None"
| "source (LogicalExpression op l r) = None"
| "source (Subshell l) = None"
| "source (For name ws body) = None"
| "source (Case clause cases) = None"
| "source (CaseItem pattern body) = None"
| "source (While c d) = None"
| "source (Until c d) = None"
| "source (Redirect op file numberIo) = None"
| "source (ArithmeticExpansion x r) = None"
| "source (CommandExpansion x r a) = None"
| "source (ParameterExpansion p k w op) = None"
| "list_source (MkCompoundList cs rs) = js_join ''\<newline>'' (map source cs)"
| "command_sources (MkCompoundList cs rs) = map source cs"

text \<open>
  The text of one branch of an \<open>If\<close> as its accessor computes it:
  \<open>node.then ? node.then.commands.map(c => c.source).join(sep) : ""\<close>.
\<close>

definition branch_text :: "string \<Rightarrow> clist option \<Rightarrow> string" where
  "branch_text sep b =
     (case b of None \<Rightarrow> '''' | Some l \<Rightarrow> js_join sep (map source (list_commands l)))"

text \<open>
  The visitor of \<open>codegen\<close>.  Each function is \<open>defSource(node, fn)\<close>, which
  installs the accessor and returns the node it was given.  \<open>defSource\<close> throws
  when the object already has the accessor (see \<open>defSource\<close> on the store
  below); a tree holds every object once and one traversal visits a node
  once, so within one \<open>codegen\<close> of a tree no function of this table throws.
\<close>

definition codegen_visitor :: "tctx visitor" where
  "codegen_visitor =
     Table \<lparr> handlers = (\<lambda>k. if k \<in> set [''Script'', ''Word'', ''AssignmentWord'', ''Name'',
                                   ''CompoundList'', ''Function'', ''Command'', ''If'']
                         then Some (\<lambda>node context. Inr node) else None),
             defaultMethod = None \<rparr>"

definition codegen :: "jsval \<Rightarrow> error + jsval" where
  "codegen ast = traverse ast codegen_visitor"

section \<open>The import resolver (index.ts)\<close>

text \<open>
  The collaborators: the file system (a path holds a file, a directory or
  nothing), the parser (it throws or returns a \<open>Script\<close>, given here by its
  \<open>commands\<close>), and the functions of the \<open>path\<close> module.
\<close>

datatype entry = File string | Directory

record env =
  disk :: "string \<Rightarrow> entry option"
  parse :: "string \<Rightarrow> error + node list"
  path_resolve :: "string \<Rightarrow> string \<Rightarrow> string"
  path_dirname :: "string \<Rightarrow> string"
  path_basename :: "string \<Rightarrow> string \<Rightarrow> string"
  path_extname :: "string \<Rightarrow> string"

definition existsSync :: "env \<Rightarrow> string \<Rightarrow> bool" where
  "existsSync env file \<longleftrightarrow> disk env file \<noteq> None"

definition readFileSync :: "env \<Rightarrow> string \<Rightarrow> error + string" where
  "readFileSync env file =
     (case disk env file of
        None \<Rightarrow> Inl (ENOENT file)
      | Some Directory \<Rightarrow> Inl (EISDIR file)
      | Some (File content) \<Rightarrow> Inr content)"

text \<open>The loop body of \<open>Import\<close>: \<open>func.name.text = `${mod}::${func.name.text}`\<close>
  (\<open>module\<close> stands for the source's \<open>mod\<close>);
  the loop runs over the filtered functions, so no other node reaches it.\<close>

fun rename :: "string \<Rightarrow> node \<Rightarrow> node" where
  "rename module (Function name rs body) = Function (module @ ''::'' @ name) rs body"
| "rename module n = n"

text \<open>
  \<open>Import\<close>, in two parts.  \<open>import_from\<close> is what follows once \<open>file\<close> has its
  final value: read and parse the file, keep the top-level functions, name
  the module, rename.  \<open>Import\<close> finds the argument and the file:
  \<open>cmd.suffix.filter\<close> throws when there is no suffix, \<open>argv[0].text\<close> when the
  suffix has no \<open>Word\<close>.
\<close>

definition import_from :: "env \<Rightarrow> string \<Rightarrow> error + node list" where
  "import_from env file =
     and_then (readFileSync env file) (\<lambda>content.
     and_then (parse env content) (\<lambda>commands.
       (let funcs = filter (\<lambda>cur. node_type cur = ''Function'') commands;
            module = path_basename env file (path_extname env file)
        in Inr (map (rename module) funcs))))"

definition Import :: "env \<Rightarrow> string \<Rightarrow> node \<Rightarrow> error + node list" where
  "Import env filename cmd =
     (case cmd of
        Command name prefix (Some suffix) \<Rightarrow>
          (case filter (\<lambda>cur. node_type cur = ''Word'') suffix of
             Word w # _ \<Rightarrow>
               (let file = path_resolve env (path_dirname env filename) (word_text w);
                    file = (if \<not> existsSync env file then file @ ''.sh'' else file)
                in import_from env file)
           | _ \<Rightarrow> Inl TypeError)
      | _ \<Rightarrow> Inl TypeError)"

text \<open>
  \<open>cmd.name\<close> and its \<open>text\<close>: a command may have a name, a function and a \<open>for\<close>
  loop have one, no other node has a \<open>name\<close> property.
\<close>

fun name_text :: "node \<Rightarrow> string option" where
  "name_text (Command name prefix suffix) = map_option word_text name"
| "name_text (Function name rs body) = Some name"
| "name_text (For name ws body) = Some name"
| "name_text n = None"

text \<open>\<open>Context.Command\<close>; a bare \<open>return\<close> and the end of the \<open>switch\<close> give \<open>undefined\<close>.\<close>

definition Command_method :: "env \<Rightarrow> string \<Rightarrow> node \<Rightarrow> error + jsval" where
  "Command_method env filename cmd =
     (case name_text cmd of
        None \<Rightarrow> Inr Undefined
      | Some t \<Rightarrow>
          (if t = ''import''
           then and_then (Import env filename cmd) (\<lambda>funcs. Inr (Arr funcs))
           else Inr Undefined))"

text \<open>
  A \<open>Context\<close> object used as a visitor: of its members only \<open>Command\<close> is named
  like a node type, so it is the one function the traversal can find.
\<close>

definition Context :: "env \<Rightarrow> string \<Rightarrow> tctx visitor" where
  "Context env filename =
     Table \<lparr> handlers = (\<lambda>k. if k = ''Command''
                then Some (\<lambda>node context.
                       case node of Node cmd \<Rightarrow> Command_method env filename cmd
                                  | other \<Rightarrow> Inr Undefined)
                else None),
             defaultMethod = None \<rparr>"

text \<open>The constructor's parse of the root file, and \<open>process\<close>.\<close>

definition Context_ast :: "env \<Rightarrow> string \<Rightarrow> error + node" where
  "Context_ast env filename =
     and_then (readFileSync env filename) (\<lambda>content.
     and_then (parse env content) (\<lambda>commands. Inr (Script commands)))"

definition process :: "env \<Rightarrow> string \<Rightarrow> node \<Rightarrow> error + jsval" where
  "process env filename ast =
     and_then (traverse (Node ast) (Context env filename)) (\<lambda>outAst. codegen outAst)"

section \<open>Objects, accessors and mutation\<close>

text \<open>
  Nodes are mutable objects and a parent holds references to its children.
  A store maps addresses to objects.  An object records the fields that the
  accessor functions of \<open>codegen\<close> read, its \<open>text\<close> property if it has one, and
  whether \<open>defSource\<close> has installed the \<open>source\<close> accessor on it.  The nodes
  that carry text (\<open>Word\<close>, \<open>AssignmentWord\<close>, \<open>Name\<close>) are objects of their own,
  reached by reference from a command, an array or a function; as in the
  tree model, a slot declared \<open>CompoundList\<close> is held in place by its commands.
\<close>

type_synonym addr = nat

datatype fields =
    HScript "addr list"
  | HCompoundList "addr list"
  | HWord
  | HAssignmentWord
  | HName
  | HFunction addr "addr list"
  | HCommand "addr option" "addr list option" "addr list option"
  | HIf "addr list option" "addr list option" "addr list option"
  | HOther

record object =
  shape :: fields
  text_property :: "string option"
  accessor :: bool

type_synonym store = "addr \<Rightarrow> object"

text \<open>
  \<open>defSource\<close> on the object at an address: \<open>Object.defineProperty\<close> with
  \<open>get: fn\<close> installs the accessor, with no setter and no stored value; the
  property is not configurable, so defining it again on the same object
  throws.  The \<open>fn\<close> that \<open>codegen\<close> passes is fixed by the type of the node.
\<close>

definition defSource :: "store \<Rightarrow> addr \<Rightarrow> error + store" where
  "defSource h a =
     (if accessor (h a) then Inl TypeError
      else Inr (h(a := (h a)\<lparr> accessor := True \<rparr>)))"

text \<open>
  The \<open>source\<close> values of the elements of an array, read with \<open>rd\<close>, and the
  same for an array that may be absent.
\<close>

definition sources_of ::
  "(addr \<Rightarrow> string option option) \<Rightarrow> addr list \<Rightarrow> string option list option" where
  "sources_of rd as = those (map rd as)"

fun opt_sources_of ::
  "(addr \<Rightarrow> string option option) \<Rightarrow> addr list option \<Rightarrow> string option list option option"
  where
  "opt_sources_of rd None = Some None"
| "opt_sources_of rd (Some as) = map_option Some (sources_of rd as)"

text \<open>
  Reading \<open>source\<close> on the object at an address.  A read calls the installed
  \<open>fn\<close>, which reads the fields, the \<open>text\<close> and the children's \<open>source\<close> in the
  store as it is now, and writes nothing.  The first argument bounds the
  depth of nested reads (a store may hold a cycle); the outer \<open>None\<close> is a read
  that ran out of it, \<open>Some None\<close> is \<open>undefined\<close>.
\<close>

primrec get_source :: "nat \<Rightarrow> store \<Rightarrow> addr \<Rightarrow> string option option" where
  "get_source 0 h a = None"
| "get_source (Suc n) h a =
     (if \<not> accessor (h a) then Some None
      else (case shape (h a) of
              HScript cs \<Rightarrow>
                map_option (\<lambda>ss. Some (js_join ''\<newline>'' ss)) (sources_of (get_source n h) cs)
            | HCompoundList cs \<Rightarrow>
                map_option (\<lambda>ss. Some (js_join ''\<newline>'' ss)) (sources_of (get_source n h) cs)
            | HWord \<Rightarrow> Some (text_property (h a))
            | HAssignmentWord \<Rightarrow> Some (text_property (h a))
            | HName \<Rightarrow> Some (text_property (h a))
            | HFunction name body \<Rightarrow>
                map_option
                  (\<lambda>ss. Some (function_text (js_string (text_property (h name)))
                                (js_join ''\<newline>'' ss)))
                  (sources_of (get_source n h) body)
            | HCommand name prefix suffix \<Rightarrow>
                (case opt_sources_of (get_source n h) suffix of None \<Rightarrow> None | Some ss \<Rightarrow>
                (case opt_sources_of (get_source n h) prefix of None \<Rightarrow> None | Some ps \<Rightarrow>
                (case name of
                   None \<Rightarrow> Some (Some (command_text ps None ss))
                 | Some c \<Rightarrow>
                    (case get_source n h c of None \<Rightarrow> None
                     | Some s \<Rightarrow> Some (Some (command_text ps (Some s) ss))))))
            | HIf c t e \<Rightarrow>
                (case opt_sources_of (get_source n h) c of None \<Rightarrow> None | Some cs \<Rightarrow>
                (case opt_sources_of (get_source n h) t of None \<Rightarrow> None | Some ts \<Rightarrow>
                (case opt_sources_of (get_source n h) e of None \<Rightarrow> None | Some es \<Rightarrow>
                   Some (Some (if_text cs ts es)))))
            | HOther \<Rightarrow> Some None))"

text \<open>The assignment \<open>node.text = t\<close> on the object at an address.\<close>

definition set_text :: "store \<Rightarrow> addr \<Rightarrow> string \<Rightarrow> store" where
  "set_text h a t = h(a := (h a)\<lparr> text_property := Some t \<rparr>)"

text \<open>
  The tree that the objects reachable from an address form at the moment,
  once the accessors are installed: the link between the store and the tree
  model.  Fields that no accessor reads (expansions, redirections) are shown
  empty, and an object of a type without a rule is shown as an empty
  pipeline.  There is no such tree (\<open>None\<close>) when the depth bound is too small,
  when an object of a type with a rule lacks its accessor, or when a slot
  does not hold what the declaration gives it.
\<close>

definition trees_of :: "(addr \<Rightarrow> node option) \<Rightarrow> addr list \<Rightarrow> node list option" where
  "trees_of tr as = those (map tr as)"

fun opt_trees_of :: "(addr \<Rightarrow> node option) \<Rightarrow> addr list option \<Rightarrow> node list option option"
  where
  "opt_trees_of tr None = Some None"
| "opt_trees_of tr (Some as) = map_option Some (trees_of tr as)"

fun opt_list_of :: "(addr \<Rightarrow> node option) \<Rightarrow> addr list option \<Rightarrow> clist option option"
  where
  "opt_list_of tr None = Some None"
| "opt_list_of tr (Some as) = map_option (\<lambda>cs. Some (MkCompoundList cs [])) (trees_of tr as)"

fun word_of :: "node option \<Rightarrow> word option" where
  "word_of (Some (Word w)) = Some w"
| "word_of _ = None"

primrec tree_at :: "nat \<Rightarrow> store \<Rightarrow> addr \<Rightarrow> node option" where
  "tree_at 0 h a = None"
| "tree_at (Suc n) h a =
     (case shape (h a) of
        HOther \<Rightarrow> Some (Pipeline [])
      | HScript cs \<Rightarrow>
          (if accessor (h a) then map_option Script (trees_of (tree_at n h) cs) else None)
      | HCompoundList cs \<Rightarrow>
          (if accessor (h a)
           then map_option (\<lambda>xs. CompoundList (MkCompoundList xs [])) (trees_of (tree_at n h) cs)
           else None)
      | HWord \<Rightarrow>
          (if accessor (h a) then map_option (\<lambda>t. Word (MkWord t [])) (text_property (h a))
           else None)
      | HAssignmentWord \<Rightarrow>
          (if accessor (h a)
           then map_option (\<lambda>t. AssignmentWord (MkWord t [])) (text_property (h a))
           else None)
      | HName \<Rightarrow>
          (if accessor (h a) then map_option Name (text_property (h a)) else None)
      | HFunction name body \<Rightarrow>
          (if accessor (h a) \<and> shape (h name) = HName
           then (case text_property (h name) of
                   None \<Rightarrow> None
                 | Some t \<Rightarrow>
                     map_option (\<lambda>xs. Function t [] (MkCompoundList xs []))
                       (trees_of (tree_at n h) body))
           else None)
      | HCommand name prefix suffix \<Rightarrow>
          (if accessor (h a)
           then (case opt_trees_of (tree_at n h) suffix of None \<Rightarrow> None | Some ss \<Rightarrow>
                (case opt_trees_of (tree_at n h) prefix of None \<Rightarrow> None | Some ps \<Rightarrow>
                (case name of
                   None \<Rightarrow> Some (Command None ps ss)
                 | Some c \<Rightarrow>
                    (case word_of (tree_at n h c) of None \<Rightarrow> None
                     | Some w \<Rightarrow> Some (Command (Some w) ps ss)))))
           else None)
      | HIf c t e \<Rightarrow>
          (if accessor (h a)
           then (case opt_list_of (tree_at n h) c of None \<Rightarrow> None | Some c' \<Rightarrow>
                (case opt_list_of (tree_at n h) t of None \<Rightarrow> None | Some t' \<Rightarrow>
                (case opt_list_of (tree_at n h) e of None \<Rightarrow> None | Some e' \<Rightarrow>
                   Some (IfNode c' t' e'))))
           else None))"

text \<open>
  Inputs for the examples below.  A store holding the command \<open>echo\<close>: the
  command at address 0, its name at address 1.
\<close>

definition echo_store :: store where
  "echo_store =
     (\<lambda>a. \<lparr> shape = HOther, text_property = None, accessor = False \<rparr>)
       (0 := \<lparr> shape = HCommand (Some 1) None None, text_property = None, accessor = True \<rparr>,
        1 := \<lparr> shape = HWord, text_property = Some ''echo'', accessor = True \<rparr>)"

text \<open>
  A store holding the script of one function, \<open>greet() { echo hi }\<close>: the
  script at address 0, the function at 1, its name at 2, the command of its
  body at 3, with the words \<open>echo\<close> at 4 and \<open>hi\<close> at 5.
\<close>

definition greet_store :: store where
  "greet_store =
     (\<lambda>a. \<lparr> shape = HOther, text_property = None, accessor = False \<rparr>)
       (0 := \<lparr> shape = HScript [1], text_property = None, accessor = True \<rparr>,
        1 := \<lparr> shape = HFunction 2 [3], text_property = None, accessor = True \<rparr>,
        2 := \<lparr> shape = HName, text_property = Some ''greet'', accessor = True \<rparr>,
        3 := \<lparr> shape = HCommand (Some 4) None (Some [5]), text_property = None,
               accessor = True \<rparr>,
        4 := \<lparr> shape = HWord, text_property = Some ''echo'', accessor = True \<rparr>,
        5 := \<lparr> shape = HWord, text_property = Some ''hi'', accessor = True \<rparr>)"

text \<open>
  The files of the import scenario: \<open>/proj/main.sh\<close> imports \<open>util\<close>, and
  \<open>/proj/util.sh\<close> defines the function \<open>greet\<close> and runs a command.
\<close>

definition greet_body :: clist where
  "greet_body =
     MkCompoundList
       [Command (Some (MkWord ''echo'' [])) None (Some [Word (MkWord ''hi'' [])])] []"

definition demo_env :: env where
  "demo_env =
     \<lparr> disk = (\<lambda>p. if p = ''/proj/util.sh'' then Some (File ''greet() { echo hi; }; ls'')
                    else if p = ''/proj/main.sh'' then Some (File ''import util; echo hi'')
                    else None),
       parse = (\<lambda>s. if s = ''greet() { echo hi; }; ls''
                     then Inr [Function ''greet'' [] greet_body,
                               Command (Some (MkWord ''ls'' [])) None None]
                     else if s = ''import util; echo hi''
                     then Inr [Command (Some (MkWord ''import'' [])) None
                                 (Some [Word (MkWord ''util'' [])]),
                               Command (Some (MkWord ''echo'' [])) None
                                 (Some [Word (MkWord ''hi'' [])])]
                     else Inl ParseError),
       path_resolve = (\<lambda>d p. d @ ''/'' @ p),
       path_dirname = (\<lambda>f. ''/proj''),
       path_basename = (\<lambda>f ext. ''util''),
       path_extname = (\<lambda>f. ''.sh'') \<rparr>"

text \<open>
  A visitor that shows what a parent's function is handed: every \<open>Name\<close> is
  replaced by the name \<open>seen\<close>, and a \<open>Function\<close> is replaced by its own name
  node as the function for \<open>Function\<close> finds it.
\<close>

definition probe_Function :: "tctx handler" where
  "probe_Function node context =
     (case node of Node (Function name rs body) \<Rightarrow> Inr (Node (Name name))
                 | other \<Rightarrow> Inr Undefined)"

definition probe_table :: "tctx vtable" where
  "probe_table =
     \<lparr> handlers = (\<lambda>k. if k = ''Name'' then Some (\<lambda>node context. Inr (Node (Name ''seen'')))
                        else if k = ''Function'' then Some probe_Function
                        else None),
       defaultMethod = None \<rparr>"

text \<open>The clause of \<open>if true\<close>.\<close>

definition true_clause :: clist where
  "true_clause = MkCompoundList [Command (Some (MkWord ''true'' [])) None None] []"

text \<open>
  The text that the spec's sentence on \<open>If\<close> gives: the \<open>then\<close> block and the \<open>else\<close>
  block are present exactly when the branch exists.
\<close>

definition if_text_by_branch_presence ::
  "string option list option \<Rightarrow> string option list option \<Rightarrow> string option list option
     \<Rightarrow> string" where
  "if_text_by_branch_presence clause then_branch else_branch =
     ''if '' @ (case clause of Some cs \<Rightarrow> js_join '' '' cs | None \<Rightarrow> '''') @ ''\<newline>''
       @ (case then_branch of
            Some cs \<Rightarrow> ''then\<newline>'' @ js_join ''\<newline>'' cs @ ''\<newline>'' | None \<Rightarrow> '''')
       @ (case else_branch of
            Some cs \<Rightarrow> ''else\<newline>'' @ js_join '' '' cs @ ''\<newline>'' | None \<Rightarrow> '''')
       @ ''\<newline>fi''"

section \<open>Properties of \<open>visit\<close>\<close>

text \<open>
  C4.  For a node and a visitor table: when a function is resolved for the
  node (the one under the node's type tag, else \<open>defaultMethod\<close>) and returns
  \<open>undefined\<close>, \<open>visit\<close> yields the node itself; any other value it returns
  (\<open>null\<close>, a node, an array) is the result of \<open>visit\<close>; and when neither a
  function for the tag nor \<open>defaultMethod\<close> exists, the node passes through.
\<close>

theorem visit_handler_result:
  "(handlers v (node_type n) = Some h \<or>
      (handlers v (node_type n) = None \<and> defaultMethod v = Some h) \<longrightarrow>
      (h (Node n) c = Inr Undefined \<longrightarrow> visit (Node n) c (Table v) = Inr (Node n)) \<and>
      (\<forall>out. out \<noteq> Undefined \<longrightarrow> h (Node n) c = Inr out \<longrightarrow>
          visit (Node n) c (Table v) = Inr out)) \<and>
   (handlers v (node_type n) = None \<and> defaultMethod v = None \<longrightarrow>
      visit (Node n) c (Table v) = Inr (Node n))"
  by auto

theorem visit_handler_result_witness:
  "visit (Node (Name ''f'')) ()
      (Table \<lparr> handlers = (\<lambda>k. if k = ''Name'' then Some (\<lambda>n c. Inr Undefined) else None),
               defaultMethod = None \<rparr>) = Inr (Node (Name ''f'')) \<and>
   visit (Node (Name ''f'')) ()
      (Table \<lparr> handlers = (\<lambda>k. None), defaultMethod = Some (\<lambda>n c. Inr Null) \<rparr>) = Inr Null \<and>
   visit (Node (Name ''f'')) ()
      (Table \<lparr> handlers = (\<lambda>k. None), defaultMethod = None \<rparr>) = Inr (Node (Name ''f''))"
  using
    visit_handler_result
      [of "\<lparr> handlers = (\<lambda>k. if k = ''Name'' then Some (\<lambda>n c. Inr Undefined) else None),
             defaultMethod = None \<rparr>" "Name ''f''" "\<lambda>n c. Inr Undefined" "()"]
    visit_handler_result
      [of "\<lparr> handlers = (\<lambda>k. None), defaultMethod = Some (\<lambda>n c. Inr Null) \<rparr>"
          "Name ''f''" "\<lambda>n c. Inr Null" "()"]
    visit_handler_result
      [of "\<lparr> handlers = (\<lambda>k. None), defaultMethod = None \<rparr>" "Name ''f''" "\<lambda>n c. Inr Null" "()"]
  by simp

lemma visit_absent_Null: "visit Null c v = Inr Null"
  by (cases v) simp_all

lemma visit_absent_Undefined: "visit Undefined c v = Inr Null"
  by (cases v) simp_all

text \<open>
  C5, as amended.  An absent node is not handed back as it came: for \<open>null\<close> and
  for \<open>undefined\<close> alike \<open>visit\<close> returns \<open>null\<close>, whatever the visitor is.
\<close>

theorem visit_absent: "visit Null c v = Inr Null \<and> visit Undefined c v = Inr Null"
  by (cases v) simp_all

text \<open>
  C5, as stated, fails: visiting \<open>undefined\<close> does not yield \<open>undefined\<close>.
\<close>

theorem visit_undefined_counterexample:
  "visit Undefined (Null, Null) empty_visitor \<noteq> Inr Undefined"
  by (simp add: empty_visitor_def)

section \<open>Properties of the traversal\<close>

lemma visit_chain_of_two:
  "visit node c (Seq [D, visitor]) = and_then (visit node c D) (\<lambda>d. visit d c visitor)"
proof (cases "node = Null \<or> node = Undefined")
  case True
  then show ?thesis
    by (auto simp add: visit_absent_Null visit_absent_Undefined)
next
  case False
  then have "visit node c (Seq [D, visitor]) = visit_reduce node c [D, visitor]"
    by simp
  also have "\<dots> = and_then (visit node c D) (\<lambda>d. visit d c visitor)"
    by (cases "visit node c D")
       (auto simp del: visit.simps(1,2) split: sum.splits)
  finally show ?thesis .
qed

lemma keep_and_then_Node:
  "keep x (and_then m (\<lambda>d. Inr (Node d))) = and_then m (\<lambda>d. Inr (Node d))"
  by (cases m) simp_all

lemma descend_leaf: "\<not> composite (node_type n) \<Longrightarrow> descend v ast n = Inr n"
  by (cases n) (simp_all add: composite_def)

lemma visit_DescendVisitor:
  "visit (Node n) (parent, ast) (DescendVisitor v) =
     and_then (descend v ast n) (\<lambda>d. Inr (Node d))"
proof (cases "composite (node_type n)")
  case True
  then show ?thesis
    by (simp add: DescendVisitor_def keep_and_then_Node del: descend.simps)
next
  case False
  then show ?thesis
    by (simp add: DescendVisitor_def descend_leaf del: descend.simps)
qed

text \<open>
  With the descend table of the spec, \<open>traverseNode\<close> on a node is the chain
  that \<open>descend\<close> runs on each child: \<open>descend\<close>, then the user's visitor on the
  reassembled node.
\<close>

lemma traverseNode_DescendVisitor:
  "traverseNode (DescendVisitor v) parent ast v (Node n) =
     and_then (descend v ast n) (\<lambda>d. visit (Node d) (parent, ast) v)"
  by (cases "descend v ast n")
     (simp_all only: traverseNode_def visit_chain_of_two visit_DescendVisitor and_then.simps)

lemma and_then_Inr_iff: "and_then m f = Inr y \<longleftrightarrow> (\<exists>x. m = Inr x \<and> f x = Inr y)"
  by (cases m) auto

lemma descend_type: "descend v ast n = Inr d \<Longrightarrow> node_type d = node_type n"
  by (cases n) (auto simp add: and_then_Inr_iff)

text \<open>
  C3.  \<open>traverseNode\<close> runs the descend table on the node first and hands what
  it returns to the user's visitor, whatever the descend table is.  With the
  descend table of the spec, the function that the user registered for the
  node's type is called on the node as \<open>descend\<close> reassembled it, with its
  children already rewritten, never on the node as it was before.
\<close>

theorem traverseNode_descend_then_visit:
  "traverseNode D parent ast visitor node =
     and_then (visit node (parent, ast) D) (\<lambda>d. visit d (parent, ast) visitor) \<and>
   (handlers v (node_type n) = Some h \<longrightarrow>
      traverseNode (DescendVisitor (Table v)) parent ast (Table v) (Node n) =
        and_then (descend (Table v) ast n) (\<lambda>d. keep (Node d) (h (Node d) (parent, ast))))"
proof -
  have "traverseNode (DescendVisitor (Table v)) parent ast (Table v) (Node n) =
      and_then (descend (Table v) ast n) (\<lambda>d. keep (Node d) (h (Node d) (parent, ast)))"
    if h: "handlers v (node_type n) = Some h"
  proof (cases "descend (Table v) ast n")
    case (Inl e)
    then show ?thesis by (simp add: traverseNode_DescendVisitor)
  next
    case (Inr d)
    with h descend_type [OF Inr] show ?thesis
      by (simp add: traverseNode_DescendVisitor)
  qed
  then show ?thesis
    by (simp only: traverseNode_def visit_chain_of_two) simp
qed

theorem traverseNode_descend_then_visit_witness:
  "traverseNode (DescendVisitor (Table probe_table)) Null
      (Node (Function ''f'' [] (MkCompoundList [] []))) (Table probe_table)
      (Node (Function ''f'' [] (MkCompoundList [] []))) = Inr (Node (Name ''seen''))"
proof -
  let ?f = "Function ''f'' [] (MkCompoundList [] [])"
  have h: "handlers probe_table (node_type ?f) = Some probe_Function"
    by (simp add: probe_table_def)
  have d: "descend (Table probe_table) (Node ?f) ?f
           = Inr (Function ''seen'' [] (MkCompoundList [] []))"
    by (simp add: probe_table_def)
  from traverseNode_descend_then_visit
         [of "Table probe_table" Null "Node ?f" "Table probe_table" "Node ?f" probe_table
             ?f probe_Function, THEN conjunct2, THEN mp, OF h]
  have "traverseNode (DescendVisitor (Table probe_table)) Null (Node ?f) (Table probe_table)
          (Node ?f) =
        and_then (descend (Table probe_table) (Node ?f) ?f)
          (\<lambda>d. keep (Node d) (probe_Function (Node d) (Null, Node ?f)))" .
  then show ?thesis
    by (simp only: d and_then.simps) (simp add: probe_Function_def)
qed

lemma descend_empty:
  "descend empty_visitor ast n = Inr n"
  "descend_list empty_visitor ast l = Inr l"
  "chain_seq empty_visitor ast p cs = Inr cs"
proof (induction empty_visitor ast n and empty_visitor ast l and empty_visitor ast p cs
       rule: descend_descend_list_chain_seq.induct)
  case (4 ast name prefix suffix)
  then show ?case
    by (cases name; cases prefix; cases suffix; simp add: empty_visitor_def)
next
  case (12 ast c t e)
  then show ?case
    by (cases c; cases t; cases e; simp add: empty_visitor_def)
qed (simp_all add: empty_visitor_def)

text \<open>
  C6.  Traversal identity: with the empty visitor table, \<open>traverse\<close> returns the
  tree it was given, for every tree.
\<close>

theorem traverse_empty_visitor_identity:
  "traverse (Node T) empty_visitor = Inr (Node T)"
  unfolding traverse_def
  by (simp add: traverseNode_DescendVisitor descend_empty) (simp add: empty_visitor_def)

section \<open>Properties of the code generator\<close>

lemma command_sources_eq: "command_sources l = map source (list_commands l)"
  by (cases l) simp

text \<open>
  C8.  The \<open>source\<close> of a \<open>Command\<close> is the sources of the prefix elements joined
  by spaces, one space, the text of the name (the empty string when there is
  no name), one space, and the sources of the suffix elements joined by
  spaces; so it begins with a space when the prefix is absent or empty and
  ends with one when the suffix is absent or empty.
\<close>

theorem Command_source:
  "source (Command name prefix suffix) =
     Some ((case prefix of None \<Rightarrow> '''' | Some ps \<Rightarrow> js_join '' '' (map source ps))
           @ '' '' @ (case name of None \<Rightarrow> '''' | Some w \<Rightarrow> word_text w) @ '' ''
           @ (case suffix of None \<Rightarrow> '''' | Some ss \<Rightarrow> js_join '' '' (map source ss))) \<and>
   (prefix = None \<or> prefix = Some [] \<longrightarrow>
      map_option hd (source (Command name prefix suffix)) = Some CHR '' '') \<and>
   (suffix = None \<or> suffix = Some [] \<longrightarrow>
      map_option last (source (Command name prefix suffix)) = Some CHR '' '')"
  by (cases name; cases prefix; cases suffix) (auto simp add: command_text_def)

theorem Command_source_witness:
  "source (Command (Some (MkWord ''echo'' [])) None (Some [Word (MkWord ''hi'' [])]))
     = Some '' echo hi'' \<and>
   source (Command (Some (MkWord ''ls'' [])) (Some [AssignmentWord (MkWord ''A=1'' [])]) (Some []))
     = Some ''A=1 ls ''"
  using
    Command_source [of "Some (MkWord ''echo'' [])" None "Some [Word (MkWord ''hi'' [])]"]
    Command_source [of "Some (MkWord ''ls'' [])" "Some [AssignmentWord (MkWord ''A=1'' [])]" "Some []"]
  by simp

text \<open>
  C7, as amended.  The \<open>source\<close> of an \<open>If\<close> is \<open>if\<close>, a space, the clause's commands
  joined by spaces, a newline; then, if the text of the \<open>then\<close> branch (its
  commands joined by newlines; empty for an absent branch) is not empty,
  \<open>then\<close>, a newline, that text and a newline; then, if the text of the \<open>else\<close>
  branch (joined by spaces) is not empty, \<open>else\<close>, a newline, that text and a
  newline; then a newline and \<open>fi\<close>.  With a non-empty \<open>then\<close> text and no \<open>else\<close>
  branch there is no \<open>else\<close> text.
\<close>

theorem If_source:
  "source (IfNode c t e) =
     Some (''if '' @ branch_text '' '' c @ ''\<newline>''
           @ (if branch_text ''\<newline>'' t = '''' then ''''
              else ''then\<newline>'' @ branch_text ''\<newline>'' t @ ''\<newline>'')
           @ (if branch_text '' '' e = '''' then ''''
              else ''else\<newline>'' @ branch_text '' '' e @ ''\<newline>'')
           @ ''\<newline>fi'') \<and>
   (branch_text ''\<newline>'' t \<noteq> '''' \<longrightarrow>
      source (IfNode c t None) =
        Some (''if '' @ branch_text '' '' c @ ''\<newline>then\<newline>''
              @ branch_text ''\<newline>'' t @ ''\<newline>\<newline>fi''))"
  by (cases c; cases t; cases e)
     (simp_all add: if_text_def branch_text_def command_sources_eq Let_def)

theorem If_source_witness:
  "source (IfNode (Some true_clause) (Some greet_body) None) =
     Some ''if  true \<newline>then\<newline> echo hi\<newline>\<newline>fi''"
  using If_source [of "Some true_clause" "Some greet_body" None]
  by (simp add: branch_text_def true_clause_def greet_body_def command_text_def)

text \<open>
  C7, as stated, fails: a \<open>then\<close> branch that exists but whose text is empty gets
  no \<open>then\<close> block.  Such a branch is one whose only command is a pipeline
  (\<open>if true; then a | b; fi\<close>: a \<open>Pipeline\<close> has no \<open>source\<close> rule), or one left
  without commands (by an import of a file without functions).
\<close>

theorem If_source_counterexample:
  "source (IfNode (Some true_clause) (Some (MkCompoundList [Pipeline []] [])) None) \<noteq>
     Some (if_text_by_branch_presence
             (Some (command_sources true_clause))
             (Some (command_sources (MkCompoundList [Pipeline []] []))) None) \<and>
   source (IfNode (Some true_clause) (Some (MkCompoundList [] [])) None) \<noteq>
     Some (if_text_by_branch_presence
             (Some (command_sources true_clause))
             (Some (command_sources (MkCompoundList [] []))) None)"
  by (simp add: if_text_def if_text_by_branch_presence_def true_clause_def command_text_def)

section \<open>Properties of the import resolver\<close>

text \<open>
  C10.  For a \<open>Command\<close> without a name, or whose name is not \<open>import\<close>, the
  \<open>Command\<close> method returns \<open>undefined\<close>, and \<open>visit\<close> with the resolver as the visitor
  returns the command itself, without an exception.
\<close>

theorem Command_other_than_import_kept:
  "map_option word_text name \<noteq> Some ''import'' \<Longrightarrow>
     Command_method env filename (Command name prefix suffix) = Inr Undefined \<and>
     visit (Node (Command name prefix suffix)) c (Context env filename)
       = Inr (Node (Command name prefix suffix))"
  by (cases name) (simp_all add: Command_method_def Context_def)

theorem Command_other_than_import_kept_witness:
  "visit (Node (Command None (Some [AssignmentWord (MkWord ''A=1'' [])]) None)) (Null, Null)
      (Context demo_env ''/proj/main.sh'')
     = Inr (Node (Command None (Some [AssignmentWord (MkWord ''A=1'' [])]) None)) \<and>
   visit (Node (Command (Some (MkWord ''echo'' [])) None None)) (Null, Null)
      (Context demo_env ''/proj/main.sh'')
     = Inr (Node (Command (Some (MkWord ''echo'' [])) None None))"
  using
    Command_other_than_import_kept
      [of None demo_env "''/proj/main.sh''" "Some [AssignmentWord (MkWord ''A=1'' [])]" None
          "(Null, Null)"]
    Command_other_than_import_kept
      [of "Some (MkWord ''echo'' [])" demo_env "''/proj/main.sh''" None None "(Null, Null)"]
  by simp

lemma find_filter: "find P xs = Some x \<Longrightarrow> \<exists>rest. filter P xs = x # rest"
  by (induction xs) (auto split: if_splits)

lemma rename_functions:
  "map (rename m) (filter (\<lambda>cur. node_type cur = ''Function'') commands) =
   concat (map (\<lambda>cur. case cur of
                        Function name rs body \<Rightarrow> [Function (m @ ''::'' @ name) rs body]
                      | _ \<Rightarrow> []) commands)"
proof (induction commands)
  case Nil
  show ?case by simp
next
  case (Cons a commands)
  then show ?case by (cases a) simp_all
qed

text \<open>
  C1.  For a \<open>Command\<close> named \<open>import\<close>, the resolver takes the first element of type
  \<open>Word\<close> of the suffix as the path, reads and parses the file found for it,
  and returns, as the value that replaces the command, the array of exactly
  the top-level \<open>Function\<close> nodes of that file, in their order, each with its
  name changed to the module name, \<open>::\<close>, and the original name; the module name
  is the base name of the file with its extension stripped.
\<close>

theorem Import_replaces_command:
  assumes "find (\<lambda>cur. node_type cur = ''Word'') suffix = Some (Word w)"
    and "resolved = path_resolve env (path_dirname env filename) (word_text w)"
    and "file = (if existsSync env resolved then resolved else resolved @ ''.sh'')"
    and "readFileSync env file = Inr content"
    and "parse env content = Inr commands"
  shows "visit (Node (Command (Some (MkWord ''import'' ex)) prefix (Some suffix))) c
           (Context env filename) =
         Inr (Arr (concat (map (\<lambda>cur. case cur of
              Function name rs body \<Rightarrow>
                [Function (path_basename env file (path_extname env file) @ ''::'' @ name) rs body]
            | _ \<Rightarrow> []) commands)))"
proof -
  from assms(1) obtain rest where
    "filter (\<lambda>cur. node_type cur = ''Word'') suffix = Word w # rest"
    by (auto dest: find_filter)
  then have "Import env filename (Command (Some (MkWord ''import'' ex)) prefix (Some suffix))
      = import_from env file"
    using assms(2,3) by (simp add: Import_def Let_def)
  also have "\<dots> = Inr (map (rename (path_basename env file (path_extname env file)))
      (filter (\<lambda>cur. node_type cur = ''Function'') commands))"
    using assms(4,5) by (simp add: import_from_def)
  finally have I: "Import env filename (Command (Some (MkWord ''import'' ex)) prefix (Some suffix))
      = Inr (map (rename (path_basename env file (path_extname env file)))
      (filter (\<lambda>cur. node_type cur = ''Function'') commands))" .
  show ?thesis
    unfolding rename_functions [symmetric]
    by (simp add: Context_def Command_method_def I)
qed

theorem Import_replaces_command_witness:
  "visit (Node (Command (Some (MkWord ''import'' [])) None (Some [Word (MkWord ''util'' [])])))
      (Null, Null) (Context demo_env ''/proj/main.sh'') =
   Inr (Arr [Function ''util::greet'' [] greet_body])"
proof -
  have 1: "find (\<lambda>cur. node_type cur = ''Word'') [Word (MkWord ''util'' [])]
             = Some (Word (MkWord ''util'' []))"
    by simp
  have 2: "''/proj/util'' = path_resolve demo_env (path_dirname demo_env ''/proj/main.sh'')
             (word_text (MkWord ''util'' []))"
    by (simp add: demo_env_def)
  have 3: "''/proj/util.sh'' =
             (if existsSync demo_env ''/proj/util'' then ''/proj/util'' else ''/proj/util'' @ ''.sh'')"
    by (simp add: demo_env_def existsSync_def)
  have 4: "readFileSync demo_env ''/proj/util.sh'' = Inr ''greet() { echo hi; }; ls''"
    by (simp add: demo_env_def readFileSync_def)
  have 5: "parse demo_env ''greet() { echo hi; }; ls'' =
             Inr [Function ''greet'' [] greet_body, Command (Some (MkWord ''ls'' [])) None None]"
    by (simp add: demo_env_def)
  from Import_replaces_command [OF 1 2 3 4 5, of "[]" None "(Null, Null)"]
  show ?thesis
    by (simp add: demo_env_def)
qed


lemma rename_type: "node_type (rename m x) = node_type x"
  by (cases x) simp_all

lemma import_from_types:
  "import_from env file = Inr funcs \<Longrightarrow> \<forall>x\<in>set funcs. node_type x = ''Function''"
  by (auto simp add: import_from_def and_then_Inr_iff rename_type)

lemma Import_types:
  "Import env filename cmd = Inr funcs \<Longrightarrow> \<forall>x\<in>set funcs. node_type x = ''Function''"
  by (auto simp add: Import_def Let_def dest!: import_from_types
        split: node.splits option.splits list.splits if_splits)

lemma Context_visit_words:
  assumes "visit (Node d) c (Context env filename) = Inr r"
  shows "filter (\<lambda>cur. node_type cur = ''Word'') (splice r) =
         filter (\<lambda>cur. node_type cur = ''Word'') [d]"
proof (cases "node_type d = ''Command''")
  case False
  with assms have "r = Node d" by (simp add: Context_def)
  then show ?thesis by simp
next
  case True
  then obtain name prefix suffix where d: "d = Command name prefix suffix"
    by (cases d) simp_all
  show ?thesis
  proof (cases "Command_method env filename d")
    case (Inl e)
    with assms True show ?thesis by (simp add: Context_def)
  next
    case (Inr out)
    then have "out = Undefined \<or> (\<exists>funcs. out = Arr funcs \<and>
        (\<forall>x\<in>set funcs. node_type x = ''Function''))"
      using Import_types [of env filename d]
      by (auto simp add: d Command_method_def and_then_Inr_iff split: option.splits if_splits)
    moreover from assms True Inr have "r = (if out = Undefined then Node d else out)"
      by (auto simp add: Context_def split: if_splits)
    ultimately show ?thesis
      by (auto simp add: d filter_empty_conv)
  qed
qed

lemma chain_seq_words:
  "chain_seq (Context env filename) ast p xs = Inr ys \<Longrightarrow>
     filter (\<lambda>cur. node_type cur = ''Word'') ys = filter (\<lambda>cur. node_type cur = ''Word'') xs"
proof (induction xs arbitrary: ys)
  case Nil
  then show ?case by simp
next
  case (Cons x xs)
  from Cons.prems obtain d r rs where
    d: "descend (Context env filename) ast x = Inr d" and
    r: "visit (Node d) (p, ast) (Context env filename) = Inr r" and
    rs: "chain_seq (Context env filename) ast p xs = Inr rs" and
    ys: "ys = splice r @ rs"
    by (auto simp add: and_then_Inr_iff)
  have "filter (\<lambda>cur. node_type cur = ''Word'') [d] = filter (\<lambda>cur. node_type cur = ''Word'') [x]"
  proof (cases "node_type x = ''Word''")
    case True
    then obtain w where "x = Word w" by (cases x) simp_all
    with d show ?thesis by simp
  next
    case False
    with descend_type [OF d] show ?thesis by simp
  qed
  with Context_visit_words [OF r] Cons.IH [OF rs] ys show ?case by simp
qed

lemma chain_seq_fails:
  "and_then (descend v ast x) (\<lambda>d. visit (Node d) (p, ast) v) = Inl e \<Longrightarrow>
     \<exists>e'. chain_seq v ast p (before @ x # after) = Inl e'"
proof (induction before)
  case Nil
  then show ?case by simp
next
  case (Cons b before)
  then obtain e' where e': "chain_seq v ast p (before @ x # after) = Inl e'" by blast
  show ?case
  proof (cases "and_then (descend v ast b) (\<lambda>d. visit (Node d) (p, ast) v)")
    case (Inl a)
    then show ?thesis by simp
  next
    case (Inr r)
    with e' show ?thesis by simp
  qed
qed

lemma import_command_fails:
  assumes "find (\<lambda>cur. node_type cur = ''Word'') suffix = Some (Word w)"
    and "resolved = path_resolve env (path_dirname env filename) (word_text w)"
    and "\<not> existsSync env resolved" and "\<not> existsSync env (resolved @ ''.sh'')"
  shows "Import env filename (Command name prefix (Some suffix)) = Inl (ENOENT (resolved @ ''.sh''))"
proof -
  from assms(1) obtain rest where
    "filter (\<lambda>cur. node_type cur = ''Word'') suffix = Word w # rest"
    by (auto dest: find_filter)
  with assms(2,3) have "Import env filename (Command name prefix (Some suffix)) =
      import_from env (resolved @ ''.sh'')"
    by (simp add: Import_def Let_def)
  also from assms(4) have "\<dots> = Inl (ENOENT (resolved @ ''.sh''))"
    by (simp add: import_from_def readFileSync_def existsSync_def)
  finally show ?thesis .
qed

lemma find_as_filter:
  "find P xs = (case filter P xs of [] \<Rightarrow> None | x # _ \<Rightarrow> Some x)"
  by (induction xs) simp_all

lemma descend_import_command:
  assumes "descend (Context env filename) ast (Command (Some nm) prefix (Some suffix)) = Inr d"
  shows "\<exists>prefix' suffix'. d = Command (Some nm) prefix' (Some suffix') \<and>
           chain_seq (Context env filename) ast
             (Node (Command (Some nm) prefix (Some suffix))) suffix = Inr suffix'"
proof -
  let ?c = "Command (Some nm) prefix (Some suffix)"
  let ?v = "Context env filename"
  have nm: "visit (Node (Word nm)) (Node ?c, ast) ?v = Inr (Node (Word nm))"
    by (simp add: Context_def)
  define P where "P = (case prefix of None \<Rightarrow> Inr None
      | Some ps \<Rightarrow> and_then (chain_seq ?v ast (Node ?c) ps) (\<lambda>ps'. Inr (Some ps')))"
  define S where "S = chain_seq ?v ast (Node ?c) suffix"
  have "descend ?v ast ?c =
      and_then P (\<lambda>prefix'. and_then (and_then S (\<lambda>ss'. Inr (Some ss')))
        (\<lambda>suffix'. Inr (Command (Some nm) prefix' suffix')))"
    unfolding P_def S_def by (simp add: nm)
  with assms show ?thesis
    unfolding S_def [symmetric] by (cases P; cases S; simp)
qed

lemma import_chain_fails:
  assumes "find (\<lambda>cur. node_type cur = ''Word'') suffix = Some (Word w)"
    and "resolved = path_resolve env (path_dirname env filename) (word_text w)"
    and "\<not> existsSync env resolved" and "\<not> existsSync env (resolved @ ''.sh'')"
  shows "\<exists>e. and_then (descend (Context env filename) ast
                  (Command (Some (MkWord ''import'' ex)) prefix (Some suffix)))
           (\<lambda>d. visit (Node d) (p, ast) (Context env filename)) = Inl e"
proof (cases "descend (Context env filename) ast
                  (Command (Some (MkWord ''import'' ex)) prefix (Some suffix))")
  case (Inl a)
  then show ?thesis by simp
next
  case (Inr d)
  from descend_import_command [OF Inr] obtain prefix' suffix' where
    d: "d = Command (Some (MkWord ''import'' ex)) prefix' (Some suffix')" and
    s: "chain_seq (Context env filename) ast
          (Node (Command (Some (MkWord ''import'' ex)) prefix (Some suffix))) suffix = Inr suffix'"
    by blast
  from chain_seq_words [OF s] assms(1)
  have "find (\<lambda>cur. node_type cur = ''Word'') suffix' = Some (Word w)"
    by (simp add: find_as_filter)
  from import_command_fails [OF this assms(2,3,4)]
  have "visit (Node d) (p, ast) (Context env filename) = Inl (ENOENT (resolved @ ''.sh''))"
    by (simp add: d Context_def Command_method_def)
  with Inr show ?thesis by simp
qed

lemma process_fails:
  assumes "\<exists>e. and_then (descend (Context env filename) (Node (Script (before @ x # after))) x)
              (\<lambda>d. visit (Node d) (Node (Script (before @ x # after)), Node (Script (before @ x # after)))
                 (Context env filename)) = Inl e"
  shows "\<exists>e. process env filename (Script (before @ x # after)) = Inl e"
proof -
  let ?ast = "Node (Script (before @ x # after))"
  from assms chain_seq_fails [of "Context env filename" ?ast x ?ast _ before after]
  obtain e where "chain_seq (Context env filename) ?ast ?ast (before @ x # after) = Inl e"
    by blast
  then have "descend (Context env filename) ?ast (Script (before @ x # after)) = Inl e"
    by simp
  then have "traverse ?ast (Context env filename) = Inl e"
    by (simp only: traverse_def traverseNode_DescendVisitor and_then.simps)
  then show ?thesis
    by (simp add: process_def)
qed

text \<open>
  C2.  With \<open>resolved\<close> the import argument resolved against the directory of
  the importing file: when \<open>resolved\<close> exists it is the file that is read;
  when it does not, the file read is \<open>resolved\<close> with \<open>.sh\<close> appended; when neither
  exists, \<open>Import\<close> ends with the file system's error for the second path, it
  returns no functions, and \<open>process\<close> on a script with such an import among
  its top-level commands ends with an error instead of a result.
\<close>

theorem import_path_resolution:
  assumes "find (\<lambda>cur. node_type cur = ''Word'') suffix = Some (Word w)"
    and "resolved = path_resolve env (path_dirname env filename) (word_text w)"
  shows "(existsSync env resolved \<longrightarrow>
            Import env filename (Command name prefix (Some suffix)) = import_from env resolved) \<and>
         (\<not> existsSync env resolved \<longrightarrow>
            Import env filename (Command name prefix (Some suffix))
              = import_from env (resolved @ ''.sh'')) \<and>
         (\<not> existsSync env resolved \<and> \<not> existsSync env (resolved @ ''.sh'') \<longrightarrow>
            Import env filename (Command name prefix (Some suffix))
              = Inl (ENOENT (resolved @ ''.sh'')) \<and>
            (\<exists>e. process env filename
                   (Script (before @ Command (Some (MkWord ''import'' ex)) prefix (Some suffix) # after))
                 = Inl e))"
proof -
  from assms(1) obtain rest where
    f: "filter (\<lambda>cur. node_type cur = ''Word'') suffix = Word w # rest"
    by (auto dest: find_filter)
  have a: "existsSync env resolved \<longrightarrow>
      Import env filename (Command name prefix (Some suffix)) = import_from env resolved"
    using f assms(2) by (simp add: Import_def Let_def)
  have b: "\<not> existsSync env resolved \<longrightarrow>
      Import env filename (Command name prefix (Some suffix)) = import_from env (resolved @ ''.sh'')"
    using f assms(2) by (simp add: Import_def Let_def)
  have c: "\<not> existsSync env resolved \<and> \<not> existsSync env (resolved @ ''.sh'') \<longrightarrow>
      Import env filename (Command name prefix (Some suffix)) = Inl (ENOENT (resolved @ ''.sh''))"
    using import_command_fails [OF assms] by blast
  have d: "\<not> existsSync env resolved \<and> \<not> existsSync env (resolved @ ''.sh'') \<longrightarrow>
      (\<exists>e. process env filename
         (Script (before @ Command (Some (MkWord ''import'' ex)) prefix (Some suffix) # after)) = Inl e)"
    using process_fails [OF import_chain_fails [OF assms]] by blast
  from a b c d show ?thesis by blast
qed

theorem import_path_resolution_witness:
  "Import demo_env ''/proj/main.sh''
      (Command (Some (MkWord ''import'' [])) None (Some [Word (MkWord ''util.sh'' [])]))
     = import_from demo_env ''/proj/util.sh'' \<and>
   Import demo_env ''/proj/main.sh''
      (Command (Some (MkWord ''import'' [])) None (Some [Word (MkWord ''util'' [])]))
     = import_from demo_env ''/proj/util.sh'' \<and>
   Import demo_env ''/proj/main.sh''
      (Command (Some (MkWord ''import'' [])) None (Some [Word (MkWord ''nothing'' [])]))
     = Inl (ENOENT ''/proj/nothing.sh'') \<and>
   (\<exists>e. process demo_env ''/proj/main.sh''
      (Script [Command (Some (MkWord ''import'' [])) None (Some [Word (MkWord ''nothing'' [])])])
     = Inl e)"
proof -
  have f: "\<And>t. find (\<lambda>cur. node_type cur = ''Word'') [Word (MkWord t [])] = Some (Word (MkWord t []))"
    by simp
  have r1: "''/proj/util.sh'' = path_resolve demo_env (path_dirname demo_env ''/proj/main.sh'')
             (word_text (MkWord ''util.sh'' []))"
    by (simp add: demo_env_def)
  have r2: "''/proj/util'' = path_resolve demo_env (path_dirname demo_env ''/proj/main.sh'')
             (word_text (MkWord ''util'' []))"
    by (simp add: demo_env_def)
  have r3: "''/proj/nothing'' = path_resolve demo_env (path_dirname demo_env ''/proj/main.sh'')
             (word_text (MkWord ''nothing'' []))"
    by (simp add: demo_env_def)
  have e1: "existsSync demo_env ''/proj/util.sh''"
    by (simp add: demo_env_def existsSync_def)
  have e2: "\<not> existsSync demo_env ''/proj/util''"
    by (simp add: demo_env_def existsSync_def)
  have e3: "\<not> existsSync demo_env ''/proj/nothing'' \<and>
            \<not> existsSync demo_env (''/proj/nothing'' @ ''.sh'')"
    by (simp add: demo_env_def existsSync_def)
  have s2: "''/proj/util'' @ ''.sh'' = ''/proj/util.sh''" and
       s3: "''/proj/nothing'' @ ''.sh'' = ''/proj/nothing.sh''"
    by simp_all
  from import_path_resolution [OF f r1, of "Some (MkWord ''import'' [])" None "[]" "[]" "[]"] e1
  have 1: "Import demo_env ''/proj/main.sh''
      (Command (Some (MkWord ''import'' [])) None (Some [Word (MkWord ''util.sh'' [])]))
     = import_from demo_env ''/proj/util.sh''"
    by blast
  from import_path_resolution [OF f r2, of "Some (MkWord ''import'' [])" None "[]" "[]" "[]"] e2
  have 2: "Import demo_env ''/proj/main.sh''
      (Command (Some (MkWord ''import'' [])) None (Some [Word (MkWord ''util'' [])]))
     = import_from demo_env ''/proj/util.sh''"
    unfolding s2 by blast
  from import_path_resolution [OF f r3, of "Some (MkWord ''import'' [])" None "[]" "[]" "[]"] e3
  have 3: "Import demo_env ''/proj/main.sh''
      (Command (Some (MkWord ''import'' [])) None (Some [Word (MkWord ''nothing'' [])]))
     = Inl (ENOENT ''/proj/nothing.sh'') \<and>
   (\<exists>e. process demo_env ''/proj/main.sh''
      (Script ([] @ Command (Some (MkWord ''import'' [])) None (Some [Word (MkWord ''nothing'' [])]) # []))
     = Inl e)"
    unfolding s3 by blast
  from 1 2 3 show ?thesis by simp
qed

section \<open>Properties of the \<open>source\<close> accessor\<close>

lemma those_map_sources:
  assumes "\<And>a n. a \<in> set as \<Longrightarrow> tr a = Some n \<Longrightarrow> rd a = Some (source n)"
    and "those (map tr as) = Some ns"
  shows "those (map rd as) = Some (map source ns)"
  using assms
proof (induction as arbitrary: ns)
  case Nil
  then show ?case by simp
next
  case (Cons a as)
  from Cons.prems(2) obtain n ns' where
    n: "tr a = Some n" and ns': "those (map tr as) = Some ns'" and ns: "ns = n # ns'"
    by (auto split: option.splits)
  from Cons.prems(1) n have "rd a = Some (source n)" by simp
  moreover from Cons.IH [OF _ ns'] Cons.prems(1)
  have "those (map rd as) = Some (map source ns')" by simp
  ultimately show ?case by (simp add: ns)
qed

lemma sources_of_trees:
  assumes "\<And>a n. tr a = Some n \<Longrightarrow> rd a = Some (source n)"
    and "trees_of tr as = Some ns"
  shows "sources_of rd as = Some (map source ns)"
  using those_map_sources [of as tr rd ns] assms
  by (simp add: trees_of_def sources_of_def)

lemma opt_sources_of_trees:
  assumes "\<And>a n. tr a = Some n \<Longrightarrow> rd a = Some (source n)"
    and "opt_trees_of tr as = Some ns"
  shows "opt_sources_of rd as = Some (map_option (map source) ns)"
  using assms sources_of_trees [of tr rd]
  by (cases as) auto

lemma opt_sources_of_list:
  assumes "\<And>a n. tr a = Some n \<Longrightarrow> rd a = Some (source n)"
    and "opt_list_of tr as = Some l"
  shows "opt_sources_of rd as = Some (map_option command_sources l)"
  using assms sources_of_trees [of tr rd]
  by (cases as) auto

lemma word_of_Some: "word_of x = Some w \<longleftrightarrow> x = Some (Word w)"
  by (cases x rule: word_of.cases) simp_all

text \<open>
  The store and the tree model agree: a read of \<open>source\<close> on the store gives the
  \<open>source\<close> of the tree that the objects form at the time of the read.
\<close>

lemma get_source_tree_at:
  "tree_at k h p = Some n \<Longrightarrow> get_source k h p = Some (source n)"
proof (induction k arbitrary: p n)
  case 0
  then show ?case by simp
next
  case (Suc k)
  note IH = Suc.IH
  show ?case
  proof (cases "shape (h p)")
    case (HScript cs)
    with Suc.prems sources_of_trees [of "tree_at k h" "get_source k h", OF IH]
    show ?thesis by (auto split: if_splits)
  next
    case (HCompoundList cs)
    with Suc.prems sources_of_trees [of "tree_at k h" "get_source k h", OF IH]
    show ?thesis by (auto split: if_splits)
  next
    case HWord
    with Suc.prems show ?thesis by (auto split: if_splits)
  next
    case HAssignmentWord
    with Suc.prems show ?thesis by (auto split: if_splits)
  next
    case HName
    with Suc.prems show ?thesis by (auto split: if_splits)
  next
    case (HFunction name body)
    with Suc.prems sources_of_trees [of "tree_at k h" "get_source k h", OF IH]
    show ?thesis by (auto split: if_splits option.splits)
  next
    case (HCommand name prefix suffix)
    with Suc.prems have acc: "accessor (h p)" by (auto split: if_splits)
    from Suc.prems HCommand acc obtain ss ps where
      ss: "opt_trees_of (tree_at k h) suffix = Some ss" and
      ps: "opt_trees_of (tree_at k h) prefix = Some ps"
      by (auto split: option.splits)
    note ss' = opt_sources_of_trees [of "tree_at k h" "get_source k h", OF IH ss]
    note ps' = opt_sources_of_trees [of "tree_at k h" "get_source k h", OF IH ps]
    show ?thesis
    proof (cases name)
      case None
      with Suc.prems HCommand acc ss ps have n: "n = Command None ps ss"
        by simp
      from None HCommand acc ss' ps' show ?thesis
        unfolding n by (cases ps; cases ss; simp)
    next
      case (Some c)
      with Suc.prems HCommand acc ss ps obtain w where
        w: "tree_at k h c = Some (Word w)" and n: "n = Command (Some w) ps ss"
        by (auto simp add: word_of_Some split: option.splits)
      from IH [OF w] Some HCommand acc ss' ps' n show ?thesis
        by (cases ps; cases ss; simp)
    qed
  next
    case (HIf c t e)
    with Suc.prems have acc: "accessor (h p)" by (auto split: if_splits)
    from Suc.prems HIf acc obtain c' t' e' where
      c: "opt_list_of (tree_at k h) c = Some c'" and
      t: "opt_list_of (tree_at k h) t = Some t'" and
      e: "opt_list_of (tree_at k h) e = Some e'" and n: "n = IfNode c' t' e'"
      by (auto split: option.splits)
    note c' = opt_sources_of_list [of "tree_at k h" "get_source k h", OF IH c]
    note t' = opt_sources_of_list [of "tree_at k h" "get_source k h", OF IH t]
    note e' = opt_sources_of_list [of "tree_at k h" "get_source k h", OF IH e]
    from HIf acc c' t' e' n show ?thesis
      by (cases c'; cases t'; cases e'; simp)
  next
    case HOther
    with Suc.prems show ?thesis by auto
  qed
qed


text \<open>
  C9, as amended.  \<open>source\<close> is computed lazily, on every read, from the values
  that the node's fields and its children have at that moment, and is not
  memoized.  For every node and every store reached by assigning a text:
  whatever tree the objects reachable from the node form after the
  assignment, a read of the node's \<open>source\<close> gives the source of that tree; and
  the child whose text was assigned (a \<open>Word\<close>, an \<open>AssignmentWord\<close> or a \<open>Name\<close>)
  stands in that tree with the new text.  So a re-read of a parent after
  the assignment reflects it, whatever the type of the parent.
\<close>

theorem source_read_after_mutation:
  "(tree_at k (set_text h c t) p = Some n \<longrightarrow>
      get_source k (set_text h c t) p = Some (source n)) \<and>
   (accessor (h c) \<and> shape (h c) = HWord \<longrightarrow>
      tree_at (Suc j) (set_text h c t) c = Some (Word (MkWord t []))) \<and>
   (accessor (h c) \<and> shape (h c) = HAssignmentWord \<longrightarrow>
      tree_at (Suc j) (set_text h c t) c = Some (AssignmentWord (MkWord t []))) \<and>
   (accessor (h c) \<and> shape (h c) = HName \<longrightarrow>
      tree_at (Suc j) (set_text h c t) c = Some (Name t))"
  by (simp add: get_source_tree_at set_text_def)

theorem source_read_after_mutation_witness:
  "get_source (Suc (Suc (Suc (Suc 0)))) (set_text greet_store 2 ''util::greet'') 0 =
     Some (Some ''util::greet() {\<newline>   echo hi\<newline>}'') \<and>
   get_source (Suc (Suc 0)) (set_text echo_store 1 ''ls'') 0 = Some (Some '' ls '')"
proof -
  have g: "tree_at (Suc (Suc (Suc (Suc 0)))) (set_text greet_store 2 ''util::greet'') 0 =
      Some (Script [Function ''util::greet'' []
        (MkCompoundList [Command (Some (MkWord ''echo'' [])) None (Some [Word (MkWord ''hi'' [])])]
           [])])"
    by (simp add: greet_store_def set_text_def trees_of_def)
  have e: "tree_at (Suc (Suc 0)) (set_text echo_store 1 ''ls'') 0 =
      Some (Command (Some (MkWord ''ls'' [])) None None)"
    by (simp add: echo_store_def set_text_def)
  from source_read_after_mutation
         [of "Suc (Suc (Suc (Suc 0)))" greet_store 2 "''util::greet''" 0, THEN conjunct1, THEN mp, OF g]
       source_read_after_mutation
         [of "Suc (Suc 0)" echo_store 1 "''ls''" 0, THEN conjunct1, THEN mp, OF e]
  show ?thesis
    by (simp add: command_text_def function_text_def)
qed

text \<open>
  C9, as stated, fails: the command \<open>echo\<close> is read, the text of its name is
  set to \<open>ls\<close>, and the second read does not give the first string.
\<close>

theorem source_memoized_counterexample:
  "get_source (Suc (Suc 0)) echo_store 0 = Some (Some '' echo '') \<and>
   get_source (Suc (Suc 0)) (set_text echo_store 1 ''ls'') 0 \<noteq> Some (Some '' echo '')"
  by (simp add: echo_store_def set_text_def command_text_def)

end
